theory Spec2Isabelle
  imports Main "HOL-Library.Word"
begin

section \<open>The smsc client: request side\<close>

text \<open>
  The package is one Go file, \<^verbatim>\<open>client.go\<close>, kept in two revisions. The first one
  is complete (client, message, options, form, result and error types); the second one
  repeats the client and \<^verbatim>\<open>Send\<close> and changes the response types (\<^verbatim>\<open>Count\<close> is read
  from \<^verbatim>\<open>cnt\<close>, a \<^verbatim>\<open>Phones\<close> slice is added). The request side below is the first
  revision's; the response side is shared, and takes the revision's field table.

  Go's \<^verbatim>\<open>int\<close> is the 64-bit integer of the usual targets: a \<open>64 word\<close>, read
  with \<open>sint\<close>. A Go string is a byte sequence: a \<open>string\<close>. A nil pointer, a nil
  error and a nil \<^verbatim>\<open>*http.Client\<close> are \<open>None\<close>.
\<close>

type_synonym go_int = "64 word"

subsection \<open>strconv.FormatInt and the decimal verb of fmt\<close>

definition digit :: "nat \<Rightarrow> char" where
  "digit n = ''0123456789'' ! n"

function decimal :: "nat \<Rightarrow> string" where
  "decimal n = (if n < 10 then [digit n] else decimal (n div 10) @ [digit (n mod 10)])"
  by pat_completeness auto
termination
  by (relation "measure (\<lambda>n. n)") auto

declare decimal.simps [simp del]

text \<open>\<^verbatim>\<open>strconv.FormatInt(int64(i), 10)\<close>, which is also what \<^verbatim>\<open>%d\<close> prints.\<close>

definition FormatInt :: "go_int \<Rightarrow> string" where
  "FormatInt i =
     (if sint i < 0 then CHR ''-'' # decimal (nat (- sint i)) else decimal (nat (sint i)))"

subsection \<open>Results, errors and outcomes\<close>

text \<open>
  \<^verbatim>\<open>Phone\<close>, \<^verbatim>\<open>Result\<close> and \<^verbatim>\<open>Error\<close> as declared. \<^verbatim>\<open>Result\<close> is the second
  revision's record; the first revision has no \<^verbatim>\<open>Phones\<close> field, never writes it, and
  so leaves it nil. A slice is nil (\<open>None\<close>) or a window on an array: its elements, and
  what the array holds behind them (the JSON decoder writes into those slots again without
  clearing them; slots never written are zero).
\<close>

datatype 'a slice = Slice (elems: "'a list") (spare: "'a list")

record Phone =
  Phone_Phone :: string
  Phone_Mccmnc :: string
  Phone_Cost :: string
  Phone_Status :: "string option"
  Phone_Error :: "string option"

record Result =
  Result_ID :: go_int
  Result_Count :: go_int
  Result_Cost :: "string option"
  Result_Balance :: "string option"
  Result_Phones :: "Phone slice option"

record Error =
  Error_Code :: go_int
  Error_Desc :: string
  Error_ID :: "go_int option"

text \<open>
  The values of Go's \<^verbatim>\<open>error\<close> interface that the package returns: the sentinel
  \<^verbatim>\<open>ErrNoLoginPassword\<close>; the errors of \<^verbatim>\<open>net/http\<close> and \<^verbatim>\<open>io\<close>, by their
  message; the two errors of \<^verbatim>\<open>encoding/json\<close>; \<^verbatim>\<open>fmt.Errorf("smsc: %s", err)\<close>;
  and a \<^verbatim>\<open>*Error\<close> decoded from the response.
\<close>

datatype error =
    ErrNoLoginPassword
  | TransportError string
  | SyntaxError
  | UnmarshalTypeError string
  | Errorf_smsc error
  | ErrorPtr Error

text \<open>A call returns, or panics (a nil dereference, a call of a nil function value).\<close>

datatype 'a outcome = Panic | Return 'a

fun wrapErr :: "error option \<Rightarrow> error option" where
  "wrapErr None = None"
| "wrapErr (Some err) = Some (Errorf_smsc err)"

text \<open>\<^verbatim>\<open>(*Result).String\<close> and \<^verbatim>\<open>(*Error).Error\<close>.\<close>

definition Result_String :: "Result \<Rightarrow> string" where
  "Result_String r =
     ''OK - '' @ FormatInt (Result_Count r) @ '' SMS, ID - '' @ FormatInt (Result_ID r)"

definition Error_Error :: "Error \<Rightarrow> string" where
  "Error_Error e =
     (let s = ''ERROR = '' @ FormatInt (Error_Code e) @ '' ('' @ Error_Desc e @ '')''
      in case Error_ID e of
           None \<Rightarrow> s
         | Some i \<Rightarrow> s @ '', ID - '' @ FormatInt i)"

subsection \<open>The network\<close>

text \<open>
  \<^verbatim>\<open>url.Values\<close> is a \<^verbatim>\<open>map[string][]string\<close>. An \<^verbatim>\<open>*http.Client\<close> is what
  \<^verbatim>\<open>Send\<close> uses of it: the answer to \<^verbatim>\<open>PostForm(url, form)\<close> followed by
  \<^verbatim>\<open>ioutil.ReadAll(resp.Body)\<close>, which is an error of the post, an error of the read,
  or the body. The requests that went out are logged in the state that every operation
  passes on.
\<close>

type_synonym Values = "string \<rightharpoonup> string list"

type_synonym request = "string \<times> Values"

type_synonym net = "request list"

subsection \<open>Messages, options and the form\<close>

type_synonym format = go_int

definition formatInlineVerbose :: format where "formatInlineVerbose = 0"
definition formatInline :: format where "formatInline = 1"
definition formatXML :: format where "formatXML = 2"
definition formatJSON :: format where "formatJSON = 3"

type_synonym Cost = go_int

definition CostOmit :: Cost where "CostOmit = 0"
definition CostCount :: Cost where "CostCount = 2"
definition CostCountBalance :: Cost where "CostCountBalance = 3"

record message =
  message_Login :: string
  message_Password :: string
  message_Text :: string
  message_Phones :: "string list"
  message_Format :: format
  message_Cost :: Cost

definition Validate :: "message \<Rightarrow> error option" where
  "Validate m = None"

definition Values_Set :: "Values \<Rightarrow> string \<Rightarrow> string \<Rightarrow> Values" where
  "Values_Set v key val = v(key \<mapsto> [val])"

definition message_Values :: "message \<Rightarrow> Values" where
  "message_Values m =
     (let v = [''login'' \<mapsto> [message_Login m],
               ''psw'' \<mapsto> [message_Password m],
               ''mes'' \<mapsto> [message_Text m],
               ''phones'' \<mapsto> message_Phones m];
          v = (if message_Format m \<noteq> 0 then Values_Set v ''fmt'' (FormatInt (message_Format m))
               else v);
          v = (if message_Cost m \<noteq> 0 then Values_Set v ''cost'' (FormatInt (message_Cost m))
               else v)
      in v)"

text \<open>
  An \<^verbatim>\<open>Opt\<close> is a function value on the message, or nil; \<^verbatim>\<open>WithCost\<close> is the
  only constructor the package has.
\<close>

type_synonym Opt = "(message \<Rightarrow> message) option"

definition WithCost :: "Cost \<Rightarrow> Opt" where
  "WithCost c = Some (\<lambda>m. m\<lparr>message_Cost := c\<rparr>)"

text \<open>The loop \<^verbatim>\<open>for _, opt := range opts { opt(m) }\<close>.\<close>

fun applyOpts :: "message \<Rightarrow> Opt list \<Rightarrow> message outcome" where
  "applyOpts m [] = Return m"
| "applyOpts m (None # opts) = Panic"
| "applyOpts m (Some opt # opts) = applyOpts (opt m) opts"

section \<open>The response side: encoding/json on the merged shape\<close>

text \<open>
  \<^verbatim>\<open>json.Unmarshal(b, &mr)\<close> first checks that \<^verbatim>\<open>b\<close> is one JSON value
  (\<^verbatim>\<open>checkValid\<close>, a \<^verbatim>\<open>SyntaxError\<close> otherwise) and then stores that value into
  \<^verbatim>\<open>mr\<close> by the target's type. The second phase is modelled here, on the document the
  body denotes: an object keeps the order and the duplicates of its members, a number keeps
  its literal, a string is the unquoted bytes. A body that is not JSON is \<open>None\<close>.
\<close>

datatype json =
    JNull
  | JBool bool
  | JNumber string
  | JString string
  | JArray "json list"
  | JObject "(string \<times> json) list"

datatype response = PostFormError string | ReadAllError string | Body "json option"

type_synonym http_Client = "string \<Rightarrow> Values \<Rightarrow> response"

subsection \<open>Storing a JSON value into a Go value (literalStore)\<close>

definition isDigit :: "char \<Rightarrow> bool" where
  "isDigit c = (48 \<le> (of_char c :: nat) \<and> (of_char c :: nat) \<le> 57)"

fun parseDigits :: "nat \<Rightarrow> string \<Rightarrow> nat option" where
  "parseDigits acc [] = Some acc"
| "parseDigits acc (c # cs) =
     (if isDigit c then parseDigits (acc * 10 + (of_char c - 48)) cs else None)"

text \<open>\<^verbatim>\<open>strconv.ParseInt(s, 10, 64)\<close>: a sign, digits, and the range of an int64.\<close>

definition ParseInt :: "string \<Rightarrow> go_int option" where
  "ParseInt s =
     (let neg = (take 1 s = ''-'');
          ds = (if take 1 s = ''-'' \<or> take 1 s = ''+'' then drop 1 s else s)
      in if ds = [] then None
         else case parseDigits 0 ds of
                None \<Rightarrow> None
              | Some n \<Rightarrow>
                  if neg then (if n \<le> 2 ^ 63 then Some (- word_of_nat n) else None)
                  else (if n < 2 ^ 63 then Some (word_of_nat n) else None))"

text \<open>
  A null leaves an int or a string as it is and sets a pointer to nil; a value of the
  wrong kind is an \<^verbatim>\<open>UnmarshalTypeError\<close>, carrying the \<^verbatim>\<open>Value\<close> it names. The
  decoder saves the first such error, goes on, and returns it at the end, when the caller
  drops what was decoded: the model stops at the first one.
\<close>

fun store_int :: "go_int \<Rightarrow> json \<Rightarrow> error + go_int" where
  "store_int v JNull = Inr v"
| "store_int v (JNumber s) =
     (case ParseInt s of
        Some n \<Rightarrow> Inr n
      | None \<Rightarrow> Inl (UnmarshalTypeError (''number '' @ s)))"
| "store_int v (JBool b) = Inl (UnmarshalTypeError ''bool'')"
| "store_int v (JString s) = Inl (UnmarshalTypeError ''string'')"
| "store_int v (JArray xs) = Inl (UnmarshalTypeError ''array'')"
| "store_int v (JObject kvs) = Inl (UnmarshalTypeError ''object'')"

fun store_string :: "string \<Rightarrow> json \<Rightarrow> error + string" where
  "store_string v JNull = Inr v"
| "store_string v (JString s) = Inr s"
| "store_string v (JNumber s) = Inl (UnmarshalTypeError ''number'')"
| "store_string v (JBool b) = Inl (UnmarshalTypeError ''bool'')"
| "store_string v (JArray xs) = Inl (UnmarshalTypeError ''array'')"
| "store_string v (JObject kvs) = Inl (UnmarshalTypeError ''object'')"

definition andThen :: "error + 'a \<Rightarrow> ('a \<Rightarrow> 'b) \<Rightarrow> error + 'b" where
  "andThen r f = (case r of Inl e \<Rightarrow> Inl e | Inr x \<Rightarrow> Inr (f x))"

fun store_int_ptr :: "go_int option \<Rightarrow> json \<Rightarrow> error + go_int option" where
  "store_int_ptr p JNull = Inr None"
| "store_int_ptr p j = andThen (store_int (case p of None \<Rightarrow> 0 | Some n \<Rightarrow> n) j) Some"

fun store_string_ptr :: "string option \<Rightarrow> json \<Rightarrow> error + string option" where
  "store_string_ptr p JNull = Inr None"
| "store_string_ptr p j = andThen (store_string (case p of None \<Rightarrow> [] | Some s \<Rightarrow> s) j) Some"

subsection \<open>The fields of a struct (typeFields) and the lookup of a key\<close>

text \<open>
  The decoder works from the list of the struct's JSON fields. For \<^verbatim>\<open>MetaResult\<close>
  these are the fields of the two embedded structs, all at the same depth and all tagged.
  Go's rule for such fields (the documentation of \<^verbatim>\<open>json.Marshal\<close>, and
  \<^verbatim>\<open>dominantField\<close> in the package): where several fields at the least nested level
  carry the same name and are all tagged, "all are ignored; no error occurs". So a name is
  kept when exactly one declared field has it.
\<close>

definition typeFields :: "(string \<times> 'f) list \<Rightarrow> (string \<times> 'f) list" where
  "typeFields declared =
     filter (\<lambda>(name, f). length (filter (\<lambda>(name', f'). name' = name) declared) = 1) declared"

text \<open>
  A key selects the field with exactly its name, and otherwise the first field whose name
  is equal under case folding. The names here are ASCII, so a key folds to one of them
  only through ASCII letters and the two runes that Unicode folds onto ASCII letters,
  U+017F (onto s) and U+212A (onto k), here in UTF-8.
\<close>

definition toUpper :: "char \<Rightarrow> char" where
  "toUpper c =
     (case map_of (zip ''abcdefghijklmnopqrstuvwxyz'' ''ABCDEFGHIJKLMNOPQRSTUVWXYZ'') c of
        Some u \<Rightarrow> u
      | None \<Rightarrow> c)"

fun foldName :: "string \<Rightarrow> string" where
  "foldName (a # b # c # cs) =
     (if a = CHR 0xE2 \<and> b = CHR 0x84 \<and> c = CHR 0xAA then CHR ''K'' # foldName cs
      else if a = CHR 0xC5 \<and> b = CHR 0xBF then CHR ''S'' # foldName (c # cs)
      else toUpper a # foldName (b # c # cs))"
| "foldName [a, b] =
     (if a = CHR 0xC5 \<and> b = CHR 0xBF then ''S'' else [toUpper a, toUpper b])"
| "foldName [a] = [toUpper a]"
| "foldName [] = []"

definition findField :: "(string \<times> 'f) list \<Rightarrow> string \<Rightarrow> 'f option" where
  "findField fs key =
     (case map_of fs key of
        Some f \<Rightarrow> Some f
      | None \<Rightarrow> map_of (map (\<lambda>(name, f). (foldName name, f)) fs) (foldName key))"

text \<open>
  The loop of \<^verbatim>\<open>(*decodeState).object\<close> over the members of a JSON object: a key
  with no field is skipped with its value, whatever the value is.
\<close>

fun object :: "(string \<times> 'f) list \<Rightarrow> ('f \<Rightarrow> 's \<Rightarrow> json \<Rightarrow> error + 's) \<Rightarrow> 's \<Rightarrow>
    (string \<times> json) list \<Rightarrow> error + 's" where
  "object fs store v [] = Inr v"
| "object fs store v ((key, j) # kvs) =
     (case findField fs key of
        None \<Rightarrow> object fs store v kvs
      | Some f \<Rightarrow>
          (case store f v j of
             Inl e \<Rightarrow> Inl e
           | Inr v' \<Rightarrow> object fs store v' kvs))"

subsection \<open>Decoding a Phone and the Phones slice (second revision)\<close>

datatype Phone_field = FPhone_Phone | FPhone_Mccmnc | FPhone_Cost | FPhone_Status | FPhone_Error

definition Phone_declared :: "(string \<times> Phone_field) list" where
  "Phone_declared =
     [(''phone'', FPhone_Phone), (''mccmnc'', FPhone_Mccmnc), (''cost'', FPhone_Cost),
      (''status'', FPhone_Status), (''error'', FPhone_Error)]"

definition Phone_zero :: Phone where
  "Phone_zero = \<lparr>Phone_Phone = [], Phone_Mccmnc = [], Phone_Cost = [],
                 Phone_Status = None, Phone_Error = None\<rparr>"

fun store_Phone_field :: "Phone_field \<Rightarrow> Phone \<Rightarrow> json \<Rightarrow> error + Phone" where
  "store_Phone_field FPhone_Phone p j =
     andThen (store_string (Phone_Phone p) j) (\<lambda>s. p\<lparr>Phone_Phone := s\<rparr>)"
| "store_Phone_field FPhone_Mccmnc p j =
     andThen (store_string (Phone_Mccmnc p) j) (\<lambda>s. p\<lparr>Phone_Mccmnc := s\<rparr>)"
| "store_Phone_field FPhone_Cost p j =
     andThen (store_string (Phone_Cost p) j) (\<lambda>s. p\<lparr>Phone_Cost := s\<rparr>)"
| "store_Phone_field FPhone_Status p j =
     andThen (store_string_ptr (Phone_Status p) j) (\<lambda>s. p\<lparr>Phone_Status := s\<rparr>)"
| "store_Phone_field FPhone_Error p j =
     andThen (store_string_ptr (Phone_Error p) j) (\<lambda>s. p\<lparr>Phone_Error := s\<rparr>)"

fun store_Phone :: "Phone \<Rightarrow> json \<Rightarrow> error + Phone" where
  "store_Phone p JNull = Inr p"
| "store_Phone p (JObject kvs) = object (typeFields Phone_declared) store_Phone_field p kvs"
| "store_Phone p (JBool b) = Inl (UnmarshalTypeError ''bool'')"
| "store_Phone p (JNumber s) = Inl (UnmarshalTypeError ''number'')"
| "store_Phone p (JString s) = Inl (UnmarshalTypeError ''string'')"
| "store_Phone p (JArray xs) = Inl (UnmarshalTypeError ''array'')"

text \<open>
  \<^verbatim>\<open>(*decodeState).array\<close> on a slice: element \<open>i\<close> of the JSON array is stored
  into slot \<open>i\<close> of the array behind the slice, as that slot is; the length becomes the
  number of elements; an empty JSON array gives a fresh empty slice.
\<close>

fun store_elems :: "Phone list \<Rightarrow> json list \<Rightarrow> error + Phone list" where
  "store_elems slots [] = Inr []"
| "store_elems [] (j # js) =
     (case store_Phone Phone_zero j of
        Inl e \<Rightarrow> Inl e
      | Inr p \<Rightarrow> andThen (store_elems [] js) (\<lambda>ps. p # ps))"
| "store_elems (slot # slots) (j # js) =
     (case store_Phone slot j of
        Inl e \<Rightarrow> Inl e
      | Inr p \<Rightarrow> andThen (store_elems slots js) (\<lambda>ps. p # ps))"

fun store_Phones :: "Phone slice option \<Rightarrow> json \<Rightarrow> error + Phone slice option" where
  "store_Phones v JNull = Inr None"
| "store_Phones v (JArray js) =
     (let slots = (case v of None \<Rightarrow> [] | Some sl \<Rightarrow> elems sl @ spare sl)
      in if js = [] then Inr (Some (Slice [] []))
         else andThen (store_elems slots js) (\<lambda>ps. Some (Slice ps (drop (length js) slots))))"
| "store_Phones v (JBool b) = Inl (UnmarshalTypeError ''bool'')"
| "store_Phones v (JNumber s) = Inl (UnmarshalTypeError ''number'')"
| "store_Phones v (JString s) = Inl (UnmarshalTypeError ''string'')"
| "store_Phones v (JObject kvs) = Inl (UnmarshalTypeError ''object'')"

subsection \<open>MetaResult\<close>

text \<open>
  \<^verbatim>\<open>type MetaResult struct { *Result; *Error }\<close>, local to \<^verbatim>\<open>Send\<close>. Its JSON
  fields are the fields of \<^verbatim>\<open>Result\<close> and of \<^verbatim>\<open>Error\<close>, in this order, under the
  names of their tags; the tables below copy the declarations of the two revisions.
\<close>

record MetaResult =
  MetaResult_Result :: "Result option"
  MetaResult_Error :: "Error option"

datatype field =
    FResult_ID | FResult_Count | FResult_Cost | FResult_Balance | FResult_Phones
  | FError_Code | FError_Desc | FError_ID

definition Result_declared_1 :: "(string \<times> field) list" where
  "Result_declared_1 =
     [(''id'', FResult_ID), (''count'', FResult_Count), (''cost'', FResult_Cost),
      (''balance'', FResult_Balance)]"

definition Result_declared_2 :: "(string \<times> field) list" where
  "Result_declared_2 =
     [(''id'', FResult_ID), (''cnt'', FResult_Count), (''cost'', FResult_Cost),
      (''balance'', FResult_Balance), (''phones'', FResult_Phones)]"

definition Error_declared :: "(string \<times> field) list" where
  "Error_declared =
     [(''error_code'', FError_Code), (''error'', FError_Desc), (''id'', FError_ID)]"

definition MetaResult_fields_1 :: "(string \<times> field) list" where
  "MetaResult_fields_1 = typeFields (Result_declared_1 @ Error_declared)"

definition MetaResult_fields_2 :: "(string \<times> field) list" where
  "MetaResult_fields_2 = typeFields (Result_declared_2 @ Error_declared)"

definition Result_zero :: Result where
  "Result_zero = \<lparr>Result_ID = 0, Result_Count = 0, Result_Cost = None,
                  Result_Balance = None, Result_Phones = None\<rparr>"

definition Error_zero :: Error where
  "Error_zero = \<lparr>Error_Code = 0, Error_Desc = [], Error_ID = None\<rparr>"

text \<open>
  A key that selects a field of an embedded struct first allocates the embedded pointer
  when it is nil (whatever the value is, a null too), then stores the value into the field.
\<close>

definition the_Result :: "MetaResult \<Rightarrow> Result" where
  "the_Result mr = (case MetaResult_Result mr of None \<Rightarrow> Result_zero | Some r \<Rightarrow> r)"

definition the_Error :: "MetaResult \<Rightarrow> Error" where
  "the_Error mr = (case MetaResult_Error mr of None \<Rightarrow> Error_zero | Some e \<Rightarrow> e)"

fun store_field :: "field \<Rightarrow> MetaResult \<Rightarrow> json \<Rightarrow> error + MetaResult" where
  "store_field FResult_ID mr j =
     andThen (store_int (Result_ID (the_Result mr)) j)
       (\<lambda>n. mr\<lparr>MetaResult_Result := Some ((the_Result mr)\<lparr>Result_ID := n\<rparr>)\<rparr>)"
| "store_field FResult_Count mr j =
     andThen (store_int (Result_Count (the_Result mr)) j)
       (\<lambda>n. mr\<lparr>MetaResult_Result := Some ((the_Result mr)\<lparr>Result_Count := n\<rparr>)\<rparr>)"
| "store_field FResult_Cost mr j =
     andThen (store_string_ptr (Result_Cost (the_Result mr)) j)
       (\<lambda>s. mr\<lparr>MetaResult_Result := Some ((the_Result mr)\<lparr>Result_Cost := s\<rparr>)\<rparr>)"
| "store_field FResult_Balance mr j =
     andThen (store_string_ptr (Result_Balance (the_Result mr)) j)
       (\<lambda>s. mr\<lparr>MetaResult_Result := Some ((the_Result mr)\<lparr>Result_Balance := s\<rparr>)\<rparr>)"
| "store_field FResult_Phones mr j =
     andThen (store_Phones (Result_Phones (the_Result mr)) j)
       (\<lambda>ps. mr\<lparr>MetaResult_Result := Some ((the_Result mr)\<lparr>Result_Phones := ps\<rparr>)\<rparr>)"
| "store_field FError_Code mr j =
     andThen (store_int (Error_Code (the_Error mr)) j)
       (\<lambda>n. mr\<lparr>MetaResult_Error := Some ((the_Error mr)\<lparr>Error_Code := n\<rparr>)\<rparr>)"
| "store_field FError_Desc mr j =
     andThen (store_string (Error_Desc (the_Error mr)) j)
       (\<lambda>s. mr\<lparr>MetaResult_Error := Some ((the_Error mr)\<lparr>Error_Desc := s\<rparr>)\<rparr>)"
| "store_field FError_ID mr j =
     andThen (store_int_ptr (Error_ID (the_Error mr)) j)
       (\<lambda>n. mr\<lparr>MetaResult_Error := Some ((the_Error mr)\<lparr>Error_ID := n\<rparr>)\<rparr>)"

text \<open>
  \<^verbatim>\<open>var mr *MetaResult; json.Unmarshal(b, &mr)\<close>: the error, or the pointer
  \<^verbatim>\<open>mr\<close> afterwards. A null sets the pointer to nil and is no error; an object
  allocates the struct and fills it; any other value is of the wrong kind for a struct.
\<close>

fun Unmarshal :: "(string \<times> field) list \<Rightarrow> json option \<Rightarrow> error + MetaResult option" where
  "Unmarshal fs None = Inl SyntaxError"
| "Unmarshal fs (Some JNull) = Inr None"
| "Unmarshal fs (Some (JObject kvs)) =
     andThen (object fs store_field \<lparr>MetaResult_Result = None, MetaResult_Error = None\<rparr> kvs) Some"
| "Unmarshal fs (Some (JBool b)) = Inl (UnmarshalTypeError ''bool'')"
| "Unmarshal fs (Some (JNumber s)) = Inl (UnmarshalTypeError ''number'')"
| "Unmarshal fs (Some (JString s)) = Inl (UnmarshalTypeError ''string'')"
| "Unmarshal fs (Some (JArray xs)) = Inl (UnmarshalTypeError ''array'')"

section \<open>Client, New and Send\<close>

record Config =
  Config_URL :: string
  Config_Login :: string
  Config_Password :: string
  Config_Client :: "http_Client option"

record Client =
  Client_url :: string
  Client_login :: string
  Client_password :: string
  Client_http :: http_Client

definition DefaultURL :: string where
  "DefaultURL = ''https://smsc.ru/sys/send.php''"

text \<open>
  \<^verbatim>\<open>New\<close>; \<^verbatim>\<open>http.DefaultClient\<close>, a variable of \<^verbatim>\<open>net/http\<close>, is the first
  argument. The function returns the pair \<^verbatim>\<open>(*Client, error)\<close> and the log of requests
  as it found it: it calls nothing of the transport.
\<close>

definition New :: "http_Client \<Rightarrow> Config \<Rightarrow> net \<Rightarrow> (Client option \<times> error option) \<times> net" where
  "New DefaultClient cfg net =
     (let cfg = (if Config_URL cfg = [] then cfg\<lparr>Config_URL := DefaultURL\<rparr> else cfg)
      in if Config_Login cfg = [] \<or> Config_Password cfg = []
         then ((None, Some ErrNoLoginPassword), net)
         else
           let cfg = (if Config_Client cfg = None then cfg\<lparr>Config_Client := Some DefaultClient\<rparr>
                      else cfg);
               c = \<lparr>Client_url = Config_URL cfg,
                    Client_login = Config_Login cfg,
                    Client_password = Config_Password cfg,
                    Client_http = (case Config_Client cfg of Some h \<Rightarrow> h | None \<Rightarrow> DefaultClient)\<rparr>
           in ((Some c, None), net))"

text \<open>
  \<^verbatim>\<open>Send\<close> in three parts: the message it builds and runs the options on; what it does
  with the transport's answer (the same lines in both revisions, over the revision's
  fields); and the whole call. The receiver is a client as \<^verbatim>\<open>New\<close> makes it: not nil,
  with a transport.
\<close>

definition Send_message :: "Client \<Rightarrow> string \<Rightarrow> string list \<Rightarrow> Opt list \<Rightarrow> message outcome" where
  "Send_message c text phones opts =
     applyOpts \<lparr>message_Login = Client_login c,
                message_Password = Client_password c,
                message_Text = text,
                message_Phones = phones,
                message_Format = formatJSON,
                message_Cost = 0\<rparr> opts"

definition Send_response :: "(string \<times> field) list \<Rightarrow> response \<Rightarrow>
    (Result option \<times> error option) outcome" where
  "Send_response fs resp =
     (case resp of
        PostFormError e \<Rightarrow> Return (None, wrapErr (Some (TransportError e)))
      | ReadAllError e \<Rightarrow> Return (None, wrapErr (Some (TransportError e)))
      | Body b \<Rightarrow>
          (case Unmarshal fs b of
             Inl err \<Rightarrow> Return (None, wrapErr (Some err))
           | Inr None \<Rightarrow> Panic
           | Inr (Some mr) \<Rightarrow>
               (case MetaResult_Error mr of
                  Some e \<Rightarrow> Return (None, Some (ErrorPtr e))
                | None \<Rightarrow> Return (MetaResult_Result mr, None))))"

definition Send :: "Client \<Rightarrow> string \<Rightarrow> string list \<Rightarrow> Opt list \<Rightarrow> net \<Rightarrow>
    (Result option \<times> error option) outcome \<times> net" where
  "Send c text phones opts net =
     (case Send_message c text phones opts of
        Panic \<Rightarrow> (Panic, net)
      | Return m \<Rightarrow>
          (case Validate m of
             Some err \<Rightarrow> (Return (None, Some err), net)
           | None \<Rightarrow>
               (Send_response MetaResult_fields_1
                  (Client_http c (Client_url c) (message_Values m)),
                net @ [(Client_url c, message_Values m)])))"

section \<open>Properties of the request side\<close>

lemma applyOpts_WithCost:
  "applyOpts m (map WithCost cs) = Return (m\<lparr>message_Cost := last (message_Cost m # cs)\<rparr>)"
  by (induction cs arbitrary: m) (simp_all add: WithCost_def)

lemma Send_message_WithCost:
  "Send_message c text phones (map WithCost cs) =
     Return \<lparr>message_Login = Client_login c, message_Password = Client_password c,
             message_Text = text, message_Phones = phones, message_Format = formatJSON,
             message_Cost = last (0 # cs)\<rparr>"
  by (simp add: Send_message_def applyOpts_WithCost)

lemma Send_WithCost:
  "Send c text phones (map WithCost cs) net =
     (let m = \<lparr>message_Login = Client_login c, message_Password = Client_password c,
                message_Text = text, message_Phones = phones, message_Format = formatJSON,
                message_Cost = last (0 # cs)\<rparr>
      in (Send_response MetaResult_fields_1 (Client_http c (Client_url c) (message_Values m)),
          net @ [(Client_url c, message_Values m)]))"
  by (simp add: Send_def Send_message_WithCost Validate_def Let_def)

lemma FormatInt_3: "FormatInt 3 = ''3''"
  by (simp add: FormatInt_def decimal.simps digit_def)

text \<open>
  What \<^verbatim>\<open>FormatInt\<close> prints is the decimal numeral of its argument:
  \<^verbatim>\<open>ParseInt\<close> reads it back.
\<close>

lemma digit_isDigit: "k < 10 \<Longrightarrow> isDigit (digit k) \<and> (of_char (digit k) :: nat) - 48 = k"
proof -
  assume "k < 10"
  then have "k \<in> {0, 1, 2, 3, 4, 5, 6, 7, 8, 9}" by auto
  then show ?thesis by (auto simp: digit_def isDigit_def)
qed

lemma parseDigits_snoc:
  "parseDigits acc (xs @ [d]) =
     (case parseDigits acc xs of
        None \<Rightarrow> None
      | Some m \<Rightarrow> if isDigit d then Some (m * 10 + (of_char d - 48)) else None)"
  by (induction xs arbitrary: acc) auto

lemma parseDigits_decimal: "parseDigits 0 (decimal n) = Some n"
proof (induction n rule: decimal.induct)
  case (1 n)
  show ?case
  proof (cases "n < 10")
    case True
    then show ?thesis using digit_isDigit [of n] by (simp add: decimal.simps [of n])
  next
    case False
    have "n mod 10 < 10" by simp
    from digit_isDigit [OF this] 1 False show ?thesis
      by (simp add: decimal.simps [of n] parseDigits_snoc)
  qed
qed

lemma decimal_hd: "\<exists>k cs. k < 10 \<and> decimal n = digit k # cs"
proof (induction n rule: decimal.induct)
  case (1 n)
  show ?case
  proof (cases "n < 10")
    case True
    then show ?thesis by (auto simp: decimal.simps [of n])
  next
    case False
    with 1 obtain k cs where "k < 10" "decimal (n div 10) = digit k # cs" by blast
    with False show ?thesis by (auto simp: decimal.simps [of n])
  qed
qed

lemma digit_not_sign: "k < 10 \<Longrightarrow> digit k \<noteq> CHR ''-'' \<and> digit k \<noteq> CHR ''+''"
proof -
  assume "k < 10"
  then have "k \<in> {0, 1, 2, 3, 4, 5, 6, 7, 8, 9}" by auto
  then show ?thesis by (auto simp: digit_def)
qed

lemma ParseInt_FormatInt: "ParseInt (FormatInt i) = Some i"
proof (cases "sint i < 0")
  case True
  have b: "nat (- sint i) \<le> 2 ^ 63"
    using sint_ge [of i] by simp
  have "- word_of_nat (nat (- sint i)) = (- of_int (- sint i) :: go_int)"
    using True by (simp only: of_nat_nat)
  then have w: "- word_of_nat (nat (- sint i)) = i"
    by simp
  obtain k cs where k: "k < 10" "decimal (nat (- sint i)) = digit k # cs"
    using decimal_hd by blast
  from parseDigits_decimal [of "nat (- sint i)"] k
  have p: "parseDigits 0 (digit k # cs) = Some (nat (- sint i))" by simp
  from True k b w p show ?thesis
    by (simp add: ParseInt_def FormatInt_def Let_def)
next
  case False
  obtain k cs where k: "k < 10" "decimal (nat (sint i)) = digit k # cs"
    using decimal_hd by blast
  have b: "nat (sint i) < 2 ^ 63"
    using sint_lt [of i] False by simp
  have "word_of_nat (nat (sint i)) = (of_int (sint i) :: go_int)"
    using False by (simp only: of_nat_nat)
  then have w: "word_of_nat (nat (sint i)) = i"
    by simp
  from parseDigits_decimal [of "nat (sint i)"] k
  have p: "parseDigits 0 (digit k # cs) = Some (nat (sint i))" by simp
  from False k b w p digit_not_sign [OF k(1)] show ?thesis
    by (simp add: ParseInt_def FormatInt_def Let_def)
qed


text \<open>
  C1. For every Config whose Login and Password are both non-empty, New returns a
  non-nil Client (holding that login and password) and a nil error; for every Config in
  which Login or Password is empty, New returns a nil Client and ErrNoLoginPassword. In
  both cases the log of requests is as before: no request goes out.
\<close>

theorem C1_New_credentials:
  "(Config_Login cfg \<noteq> [] \<and> Config_Password cfg \<noteq> [] \<longrightarrow>
      (\<exists>c. New DefaultClient cfg net = ((Some c, None), net) \<and>
           Client_login c = Config_Login cfg \<and> Client_password c = Config_Password cfg)) \<and>
   (Config_Login cfg = [] \<or> Config_Password cfg = [] \<longrightarrow>
      New DefaultClient cfg net = ((None, Some ErrNoLoginPassword), net))"
  by (auto simp: New_def Let_def)

theorem C1_New_credentials_witness:
  "(\<exists>c. New (\<lambda>u f. Body None)
          \<lparr>Config_URL = [], Config_Login = ''user'', Config_Password = ''secret'',
           Config_Client = None\<rparr> [] = ((Some c, None), []) \<and>
        Client_login c = ''user'' \<and> Client_password c = ''secret'') \<and>
   New (\<lambda>u f. Body None)
     \<lparr>Config_URL = [], Config_Login = ''user'', Config_Password = [],
      Config_Client = None\<rparr> [] = ((None, Some ErrNoLoginPassword), [])"
  using C1_New_credentials [of "\<lparr>Config_URL = [], Config_Login = ''user'',
            Config_Password = ''secret'', Config_Client = None\<rparr>" "\<lambda>u f. Body None" "[]"]
    C1_New_credentials [of "\<lparr>Config_URL = [], Config_Login = ''user'',
            Config_Password = [], Config_Client = None\<rparr>" "\<lambda>u f. Body None" "[]"]
  by simp

text \<open>
  C3. For every text and every phone list (and every list of cost options), Send builds a
  message and posts its form; the form has the keys login, psw and mes, with the client's
  login, the client's password and the text as their single values, and under phones
  exactly the input phones, one entry each, in the input order.
\<close>

theorem C3_form_login_psw_mes_phones:
  "\<exists>m. Send_message c text phones (map WithCost cs) = Return m \<and>
       snd (Send c text phones (map WithCost cs) net) = net @ [(Client_url c, message_Values m)] \<and>
       message_Values m ''login'' = Some [Client_login c] \<and>
       message_Values m ''psw'' = Some [Client_password c] \<and>
       message_Values m ''mes'' = Some [text] \<and>
       message_Values m ''phones'' = Some phones"
  by (simp add: Send_message_WithCost Send_WithCost message_Values_def Values_Set_def Let_def)

text \<open>
  C4. In the form of the message that Send builds, the cost key is absent exactly when no
  cost option was applied or the last one applied carried CostOmit (0); when the last one
  carried a non-zero value, the cost key is present with that integer in decimal as its
  single value (the numeral that reads back as the integer).
\<close>

theorem C4_form_cost:
  "\<exists>m. Send_message c text phones (map WithCost cs) = Return m \<and>
       (message_Values m ''cost'' = None \<longleftrightarrow> cs = [] \<or> last cs = CostOmit) \<and>
       (cs \<noteq> [] \<and> last cs \<noteq> CostOmit \<longrightarrow>
          message_Values m ''cost'' = Some [FormatInt (last cs)] \<and>
          ParseInt (FormatInt (last cs)) = Some (last cs))"
  by (auto simp: Send_message_WithCost message_Values_def Values_Set_def Let_def CostOmit_def
      ParseInt_FormatInt)

theorem C4_form_cost_witness:
  "\<exists>m. Send_message \<lparr>Client_url = ''u'', Client_login = ''l'', Client_password = ''p'',
                        Client_http = (\<lambda>u f. Body None)\<rparr> ''hi'' [''79001234567'']
           (map WithCost [CostCount, CostCountBalance]) = Return m \<and>
       message_Values m ''cost'' = Some [''3'']"
  using C4_form_cost [of "\<lparr>Client_url = ''u'', Client_login = ''l'', Client_password = ''p'',
                        Client_http = (\<lambda>u f. Body None)\<rparr>" "''hi''" "[''79001234567'']"
                        "[CostCount, CostCountBalance]"]
  by (auto simp: CostCountBalance_def CostOmit_def FormatInt_3)

text \<open>
  C5. The form has the fmt key exactly when the message's format is not the zero default,
  and then with the format's decimal code; Send sets the format to formatJSON and no cost
  option changes it, so the form that Send posts always has fmt = 3.
\<close>

theorem C5_form_fmt:
  "(message_Values m ''fmt'' = None \<longleftrightarrow> message_Format m = formatInlineVerbose) \<and>
   (message_Format m \<noteq> formatInlineVerbose \<longrightarrow>
      message_Values m ''fmt'' = Some [FormatInt (message_Format m)]) \<and>
   (\<exists>m'. Send_message c text phones (map WithCost cs) = Return m' \<and>
         snd (Send c text phones (map WithCost cs) net) =
           net @ [(Client_url c, message_Values m')] \<and>
         message_Values m' ''fmt'' = Some [''3''])"
  by (auto simp: Send_message_WithCost Send_WithCost message_Values_def Values_Set_def Let_def
      formatInlineVerbose_def formatJSON_def FormatInt_3)

theorem C5_form_fmt_witness:
  "message_Values \<lparr>message_Login = ''l'', message_Password = ''p'', message_Text = ''t'',
                   message_Phones = [], message_Format = formatXML, message_Cost = 0\<rparr> ''fmt''
     = Some [''2'']"
  using C5_form_fmt [of "\<lparr>message_Login = ''l'', message_Password = ''p'', message_Text = ''t'',
                   message_Phones = [], message_Format = formatXML, message_Cost = 0\<rparr>"]
  by (simp add: formatXML_def formatInlineVerbose_def FormatInt_def decimal.simps digit_def)



section \<open>Properties of the response side\<close>

subsection \<open>The fields of the merged shape\<close>

text \<open>
  In both revisions the name \<^verbatim>\<open>id\<close> is declared twice, by \<^verbatim>\<open>Result\<close> and by
  \<^verbatim>\<open>Error\<close>, and is left out of the merged shape's fields.
\<close>

lemma MetaResult_fields_1_eq:
  "MetaResult_fields_1 =
     [(''count'', FResult_Count), (''cost'', FResult_Cost), (''balance'', FResult_Balance),
      (''error_code'', FError_Code), (''error'', FError_Desc)]"
  by (simp add: MetaResult_fields_1_def typeFields_def Result_declared_1_def Error_declared_def)

lemma MetaResult_fields_2_eq:
  "MetaResult_fields_2 =
     [(''cnt'', FResult_Count), (''cost'', FResult_Cost), (''balance'', FResult_Balance),
      (''phones'', FResult_Phones), (''error_code'', FError_Code), (''error'', FError_Desc)]"
  by (simp add: MetaResult_fields_2_def typeFields_def Result_declared_2_def Error_declared_def)

lemma Send_response_Panic_iff:
  "Send_response fs resp = Panic \<longleftrightarrow> resp = Body (Some JNull)"
proof (cases resp)
  case (Body b)
  show ?thesis
  proof (cases b)
    case None
    with Body show ?thesis by (simp add: Send_response_def)
  next
    case (Some j)
    with Body show ?thesis
      by (cases j) (auto simp: Send_response_def andThen_def split: sum.splits option.splits)
  qed
qed (simp_all add: Send_response_def)

lemmas decode_defs = Send_response_def findField_def andThen_def the_Result_def the_Error_def
  Result_zero_def Error_zero_def ParseInt_def isDigit_def toUpper_def

subsection \<open>The claims about Send's reading of the response\<close>

text \<open>
  C2 (the code departs from the claim). When the transport delivers the body
  \<^verbatim>\<open>null\<close>, \<^verbatim>\<open>json.Unmarshal\<close> sets \<^verbatim>\<open>mr\<close> to nil and returns no error, and
  \<^verbatim>\<open>mr.Error\<close> dereferences the nil pointer: Send panics instead of returning a
  pair, in both revisions. It is the only answer of the transport on which the lines after
  the post panic.
\<close>

theorem C2_null_body_panics:
  "fst (Send (c\<lparr>Client_http := \<lambda>url form. Body (Some JNull)\<rparr>) text phones
          (map WithCost cs) net) = Panic \<and>
   Send_response MetaResult_fields_2 (Body (Some JNull)) = Panic \<and>
   (Send_response fs resp = Panic \<longleftrightarrow> resp = Body (Some JNull))"
  by (simp add: Send_WithCost Let_def Send_response_Panic_iff)

text \<open>
  C7 (the code departs from the claim). For the body
  \<^verbatim>\<open>{"id":5,"cnt":2,"cost":"1.00","balance":"99.00"}\<close> Send returns a Result and a
  nil error, with Cost and Balance as sent, but with ID = 0: \<^verbatim>\<open>id\<close> is the tag of
  both \<^verbatim>\<open>Result.ID\<close> and \<^verbatim>\<open>Error.ID\<close>, so the merged shape has no field for it.
  Count is 2 in the second revision (tag \<^verbatim>\<open>cnt\<close>) and 0 in the first (tag
  \<^verbatim>\<open>count\<close>).
\<close>

theorem C7_success_body_loses_ID:
  "Send_response MetaResult_fields_2
     (Body (Some (JObject [(''id'', JNumber ''5''), (''cnt'', JNumber ''2''),
                           (''cost'', JString ''1.00''), (''balance'', JString ''99.00'')]))) =
   Return (Some \<lparr>Result_ID = 0, Result_Count = 2, Result_Cost = Some ''1.00'',
                 Result_Balance = Some ''99.00'', Result_Phones = None\<rparr>, None) \<and>
   fst (Send (c\<lparr>Client_http := \<lambda>url form.
                 Body (Some (JObject [(''id'', JNumber ''5''), (''cnt'', JNumber ''2''),
                   (''cost'', JString ''1.00''), (''balance'', JString ''99.00'')]))\<rparr>)
          text phones (map WithCost cs) net) =
   Return (Some \<lparr>Result_ID = 0, Result_Count = 0, Result_Cost = Some ''1.00'',
                 Result_Balance = Some ''99.00'', Result_Phones = None\<rparr>, None)"
  by (simp add: Send_WithCost Let_def MetaResult_fields_1_eq MetaResult_fields_2_eq decode_defs)

text \<open>
  C8 (the code departs from the claim). A body that decodes without error need not give
  one of Result and Error: for \<^verbatim>\<open>{"status":"ok"}\<close>, whose key names no field of the
  merged shape, \<^verbatim>\<open>json.Unmarshal\<close> returns no error and leaves both embedded pointers
  nil, and Send returns \<^verbatim>\<open>mr.Result\<close> as it is: a nil Result with a nil error, in both
  revisions. With the \<^verbatim>\<open>id\<close> member dropped (see C7), the same happens for a body
  that carries only an \<^verbatim>\<open>id\<close>, and in the first revision for \<^verbatim>\<open>{"id":5,"cnt":2}\<close>.
\<close>

theorem C8_neither_Result_nor_Error:
  "Unmarshal MetaResult_fields_1 (Some (JObject [(''status'', JString ''ok'')])) =
     Inr (Some \<lparr>MetaResult_Result = None, MetaResult_Error = None\<rparr>) \<and>
   fst (Send (c\<lparr>Client_http := \<lambda>url form. Body (Some (JObject [(''status'', JString ''ok'')]))\<rparr>)
          text phones (map WithCost cs) net) = Return (None, None) \<and>
   Unmarshal MetaResult_fields_2 (Some (JObject [(''status'', JString ''ok'')])) =
     Inr (Some \<lparr>MetaResult_Result = None, MetaResult_Error = None\<rparr>) \<and>
   Send_response MetaResult_fields_2 (Body (Some (JObject [(''status'', JString ''ok'')]))) =
     Return (None, None) \<and>
   Send_response MetaResult_fields_2 (Body (Some (JObject [(''id'', JNumber ''5'')]))) =
     Return (None, None) \<and>
   fst (Send (c\<lparr>Client_http := \<lambda>url form.
                 Body (Some (JObject [(''id'', JNumber ''5''), (''cnt'', JNumber ''2'')]))\<rparr>)
          text phones (map WithCost cs) net) = Return (None, None)"
  by (simp add: Send_WithCost Let_def MetaResult_fields_1_eq MetaResult_fields_2_eq decode_defs)

text \<open>
  C9 (the code departs from the claim). An Error renders as "ERROR = code (description)",
  followed by ", ID - id" exactly when its ID is present, and the body
  \<^verbatim>\<open>{"error_code":3,"error":"bad login","id":null}\<close> comes back as an error that
  renders "ERROR = 3 (bad login)". But for \<^verbatim>\<open>{"error_code":9,"error":"x","id":42}\<close>
  Send returns an Error with no ID, which renders "ERROR = 9 (x)": the merged shape has no
  field for \<^verbatim>\<open>id\<close> (see C7), so the clause ", ID - 42" that an Error with ID 42
  would have is never produced by Send.
\<close>

theorem C9_error_body_loses_ID:
  "Error_Error e =
     ''ERROR = '' @ FormatInt (Error_Code e) @ '' ('' @ Error_Desc e @ '')'' @
     (case Error_ID e of None \<Rightarrow> [] | Some i \<Rightarrow> '', ID - '' @ FormatInt i) \<and>
   Send_response MetaResult_fields_2
     (Body (Some (JObject [(''error_code'', JNumber ''9''), (''error'', JString ''x''),
                           (''id'', JNumber ''42'')]))) =
   Return (None, Some (ErrorPtr \<lparr>Error_Code = 9, Error_Desc = ''x'', Error_ID = None\<rparr>)) \<and>
   fst (Send (c\<lparr>Client_http := \<lambda>url form.
                 Body (Some (JObject [(''error_code'', JNumber ''9''), (''error'', JString ''x''),
                                      (''id'', JNumber ''42'')]))\<rparr>)
          text phones (map WithCost cs) net) =
   Return (None, Some (ErrorPtr \<lparr>Error_Code = 9, Error_Desc = ''x'', Error_ID = None\<rparr>)) \<and>
   Error_Error \<lparr>Error_Code = 9, Error_Desc = ''x'', Error_ID = None\<rparr> = ''ERROR = 9 (x)'' \<and>
   Error_Error \<lparr>Error_Code = 9, Error_Desc = ''x'', Error_ID = Some 42\<rparr> =
     ''ERROR = 9 (x), ID - 42'' \<and>
   fst (Send (c\<lparr>Client_http := \<lambda>url form.
                 Body (Some (JObject [(''error_code'', JNumber ''3''),
                                      (''error'', JString ''bad login''), (''id'', JNull)]))\<rparr>)
          text phones (map WithCost cs) net) =
   Return (None, Some (ErrorPtr \<lparr>Error_Code = 3, Error_Desc = ''bad login'',
                                  Error_ID = None\<rparr>)) \<and>
   Error_Error \<lparr>Error_Code = 3, Error_Desc = ''bad login'', Error_ID = None\<rparr> =
     ''ERROR = 3 (bad login)''"
proof (intro conjI)
  show "Error_Error e =
     ''ERROR = '' @ FormatInt (Error_Code e) @ '' ('' @ Error_Desc e @ '')'' @
     (case Error_ID e of None \<Rightarrow> [] | Some i \<Rightarrow> '', ID - '' @ FormatInt i)"
    by (simp add: Error_Error_def Let_def split: option.split)
qed (simp_all add: Send_WithCost Let_def MetaResult_fields_1_eq MetaResult_fields_2_eq decode_defs
    Error_Error_def FormatInt_def decimal.simps digit_def)

text \<open>
  C10. For the well-formed body \<^verbatim>\<open>{}\<close>, Send returns a nil Result together with a
  nil error.
\<close>

theorem C10_empty_object_nil_nil:
  "fst (Send (c\<lparr>Client_http := \<lambda>url form. Body (Some (JObject []))\<rparr>) text phones
          (map WithCost cs) net) = Return (None, None)"
  by (simp add: Send_WithCost Let_def Send_response_def andThen_def)

end
